theory Spec2Isabelle
  imports Main "HOL-Library.Word" "HOL-Library.Multiset"
begin

unbundle bit_operations_syntax

section \<open>Bytes, buffers and errors\<close>

text \<open>
  A Node.js \<open>Buffer\<close> is a sequence of bytes. JavaScript numbers that the source feeds to
  the bitwise operators \<open>~\<close>, \<open>&\<close>, \<open>>>\<close> and \<open><<\<close> are 32-bit two's complement
  integers there; every value that occurs below stays far inside that range, so they are
  unbounded integers with the two's complement bit operations of HOL.
\<close>

type_synonym byte = "8 word"

datatype error =
    TypeError
  | RangeError
  | Error string

section \<open>The \<mu>-law decoders\<close>

definition BIAS :: int where
  "BIAS = 0x84"

definition CLIP :: int where
  "CLIP = 32635"

text \<open>\<open>AudioBuffer.mulawToPcm\<close> of the live server (gstt.js): no masking of the
  complement and no clipping; the exponent correction is added when the exponent is not 0.\<close>

definition AudioBuffer_mulawToPcm :: "int \<Rightarrow> int" where
  "AudioBuffer_mulawToPcm mulawByte0 =
     (let mulawByte = NOT mulawByte0;
          sign = mulawByte AND 0x80;
          exponent = (drop_bit 4 mulawByte) AND 0x07;
          mantissa = mulawByte AND 0x0F;
          sample = push_bit (nat (exponent + 3)) mantissa;
          sample = sample + BIAS;
          sample = (if exponent \<noteq> 0 then sample + push_bit (nat (exponent + 2)) 1 else sample)
      in if sign \<noteq> 0 then - sample else sample)"

text \<open>\<open>ImprovedAudioConverter.mulawDecode\<close>: the branching decoder.\<close>

definition ImprovedAudioConverter_mulawDecode :: "int \<Rightarrow> int" where
  "ImprovedAudioConverter_mulawDecode mulawByte0 =
     (let mulawByte = (NOT mulawByte0) AND 0xFF;
          sign = mulawByte AND 0x80;
          exponent = (drop_bit 4 mulawByte) AND 0x07;
          mantissa = mulawByte AND 0x0F;
          linearValue =
            (if exponent = 0 then push_bit 4 mantissa + BIAS
             else push_bit (nat (exponent + 3)) (mantissa OR 0x10) + BIAS);
          linearValue = (if sign \<noteq> 0 then - linearValue else linearValue)
      in max (- CLIP) (min CLIP linearValue))"

text \<open>\<open>ImprovedAudioConverter.generateMulawTable\<close>: the body of the loop for index \<open>i\<close>,
  and the table of its 256 entries.\<close>

definition mulawTableEntry :: "int \<Rightarrow> int" where
  "mulawTableEntry i =
     (let mulawByte = (NOT i) AND 0xFF;
          sign = mulawByte AND 0x80;
          exponent = (drop_bit 4 mulawByte) AND 0x07;
          mantissa = mulawByte AND 0x0F;
          sample = push_bit (nat (exponent + 3)) mantissa;
          sample = sample + BIAS;
          sample = (if sign \<noteq> 0 then - sample else sample)
      in max (- 32768) (min 32767 sample))"

definition generateMulawTable :: "int list" where
  "generateMulawTable = map mulawTableEntry [0..255]"

text \<open>\<open>ImprovedAudioConverter.mulawDecodeAlt\<close>: the lookup-table decoder. An index outside
  the table reads \<open>undefined\<close> in JavaScript, which is \<open>None\<close> here.\<close>

definition mulawDecodeAlt :: "int \<Rightarrow> int option" where
  "mulawDecodeAlt mulawByte =
     (let MULAW_TABLE = generateMulawTable
      in if 0 \<le> mulawByte \<and> mulawByte < int (length MULAW_TABLE)
         then Some (MULAW_TABLE ! nat mulawByte) else None)"

text \<open>\<open>Base64ToWavConverter.mulawDecode\<close>; \<open>AudioStitcher.mulawDecode\<close> has the same body.\<close>

definition Base64ToWavConverter_mulawDecode :: "int \<Rightarrow> int" where
  "Base64ToWavConverter_mulawDecode mulawByte0 =
     (let mulawByte = NOT mulawByte0;
          sign = mulawByte AND 0x80;
          exponent = (drop_bit 4 mulawByte) AND 0x07;
          mantissa = mulawByte AND 0x0F;
          sample = push_bit (nat (exponent + 3)) mantissa;
          sample = sample + BIAS;
          sample = (if sign \<noteq> 0 then - sample else sample)
      in max (- CLIP) (min CLIP sample))"

definition AudioStitcher_mulawDecode :: "int \<Rightarrow> int" where
  "AudioStitcher_mulawDecode mulawByte0 =
     (let mulawByte = NOT mulawByte0;
          sign = mulawByte AND 0x80;
          exponent = (drop_bit 4 mulawByte) AND 0x07;
          mantissa = mulawByte AND 0x0F;
          sample = push_bit (nat (exponent + 3)) mantissa;
          sample = sample + BIAS;
          sample = (if sign \<noteq> 0 then - sample else sample)
      in max (- CLIP) (min CLIP sample))"

text \<open>Storing a number into an \<open>Int16Array\<close> element keeps its low 16 bits, read as two's
  complement.\<close>

definition Int16Array_store :: "int \<Rightarrow> 16 word" where
  "Int16Array_store v = word_of_int v"

section \<open>Node.js buffers\<close>

text \<open>\<open>Buffer.alloc(n)\<close> is \<open>n\<close> zero bytes. Memory is unbounded here: the platform's
  largest buffer length is not modelled.\<close>

definition Buffer_alloc :: "nat \<Rightarrow> byte list" where
  "Buffer_alloc n = replicate n 0"

definition write_at :: "byte list \<Rightarrow> nat \<Rightarrow> byte list \<Rightarrow> byte list" where
  "write_at bs offset buf = take offset buf @ bs @ drop (offset + length bs) buf"

text \<open>\<open>buf.write(string, offset)\<close> for the ASCII strings of the source: the bytes that fit
  are written; an offset beyond the buffer is a range error.\<close>

definition Buffer_write :: "string \<Rightarrow> nat \<Rightarrow> byte list \<Rightarrow> error + byte list" where
  "Buffer_write str offset buf =
     (if offset > length buf then Inl RangeError
      else Inr (write_at (take (length buf - offset) (map of_char str)) offset buf))"

text \<open>The integer writers check the value against the range of the field first, then the
  offset against the buffer; both failures raise a range error.\<close>

definition writeUInt32LE :: "nat \<Rightarrow> nat \<Rightarrow> byte list \<Rightarrow> error + byte list" where
  "writeUInt32LE v offset buf =
     (if v > 0xFFFFFFFF then Inl RangeError
      else if offset + 4 > length buf then Inl RangeError
      else Inr (write_at [of_nat v, of_nat (v div 256), of_nat (v div 65536),
                          of_nat (v div 16777216)] offset buf))"

definition writeUInt16LE :: "nat \<Rightarrow> nat \<Rightarrow> byte list \<Rightarrow> error + byte list" where
  "writeUInt16LE v offset buf =
     (if v > 0xFFFF then Inl RangeError
      else if offset + 2 > length buf then Inl RangeError
      else Inr (write_at [of_nat v, of_nat (v div 256)] offset buf))"

definition writeInt16LE :: "int \<Rightarrow> nat \<Rightarrow> byte list \<Rightarrow> error + byte list" where
  "writeInt16LE v offset buf =
     (if v < - 32768 \<or> v > 32767 then Inl RangeError
      else if offset + 2 > length buf then Inl RangeError
      else Inr (write_at [of_int v, of_int (v div 256)] offset buf))"

definition readUInt32LE :: "byte list \<Rightarrow> nat \<Rightarrow> error + nat" where
  "readUInt32LE buf offset =
     (if offset + 4 > length buf then Inl RangeError
      else Inr (unat (buf ! offset) + 256 * unat (buf ! (offset + 1))
                + 65536 * unat (buf ! (offset + 2)) + 16777216 * unat (buf ! (offset + 3))))"

definition readUInt16LE :: "byte list \<Rightarrow> nat \<Rightarrow> error + nat" where
  "readUInt16LE buf offset =
     (if offset + 2 > length buf then Inl RangeError
      else Inr (unat (buf ! offset) + 256 * unat (buf ! (offset + 1))))"

text \<open>\<open>source.copy(target, offset)\<close> copies as many bytes as fit.\<close>

definition Buffer_copy :: "byte list \<Rightarrow> nat \<Rightarrow> byte list \<Rightarrow> byte list" where
  "Buffer_copy src offset target = write_at (take (length target - offset) src) offset target"

text \<open>A sequence of write statements on one buffer; the first that raises ends it.\<close>

fun run_writes :: "(byte list \<Rightarrow> error + byte list) list \<Rightarrow> byte list \<Rightarrow> error + byte list"
  where
  "run_writes [] buf = Inr buf"
| "run_writes (w # ws) buf =
     (case w buf of Inl e \<Rightarrow> Inl e | Inr buf' \<Rightarrow> run_writes ws buf')"

text \<open>\<open>Buffer.from(string, 'base64')\<close> of the platform: characters outside the alphabet
  (standard or URL-safe) are skipped and decoding stops at the first \<open>=\<close>.\<close>

definition base64_index :: "char \<Rightarrow> nat option" where
  "base64_index c =
     (let n = (of_char c :: nat)
      in if 65 \<le> n \<and> n \<le> 90 then Some (n - 65)
         else if 97 \<le> n \<and> n \<le> 122 then Some (n - 71)
         else if 48 \<le> n \<and> n \<le> 57 then Some (n + 4)
         else if n = 43 \<or> n = 45 then Some 62
         else if n = 47 \<or> n = 95 then Some 63
         else None)"

fun sextets_to_bytes :: "nat list \<Rightarrow> byte list" where
  "sextets_to_bytes (a # b # c # d # rest) =
     [of_nat (a * 4 + b div 16), of_nat ((b mod 16) * 16 + c div 4), of_nat ((c mod 4) * 64 + d)]
     @ sextets_to_bytes rest"
| "sextets_to_bytes [a, b, c] = [of_nat (a * 4 + b div 16), of_nat ((b mod 16) * 16 + c div 4)]"
| "sextets_to_bytes [a, b] = [of_nat (a * 4 + b div 16)]"
| "sextets_to_bytes _ = []"

definition Buffer_from_base64 :: "string \<Rightarrow> byte list" where
  "Buffer_from_base64 s =
     sextets_to_bytes (List.map_filter base64_index (takeWhile (\<lambda>c. c \<noteq> CHR ''='') s))"

section \<open>The WAV writers\<close>

text \<open>\<open>AudioBuffer.createWavHeader\<close> (gstt.js). The two divisions by 8 are exact for the
  constants of the source.\<close>

definition AudioBuffer_createWavHeader :: "nat \<Rightarrow> error + byte list" where
  "AudioBuffer_createWavHeader dataLength =
     (let header = Buffer_alloc 44;
          sampleRate = 8000;
          channels = 1;
          bitsPerSample = 16
      in run_writes
           [Buffer_write ''RIFF'' 0,
            writeUInt32LE (36 + dataLength) 4,
            Buffer_write ''WAVE'' 8,
            Buffer_write ''fmt '' 12,
            writeUInt32LE 16 16,
            writeUInt16LE 1 20,
            writeUInt16LE channels 22,
            writeUInt32LE sampleRate 24,
            writeUInt32LE (sampleRate * channels * bitsPerSample div 8) 28,
            writeUInt16LE (channels * bitsPerSample div 8) 32,
            writeUInt16LE bitsPerSample 34,
            Buffer_write ''data'' 36,
            writeUInt32LE dataLength 40]
           header)"

text \<open>\<open>AudioBuffer.createWavBuffer\<close> (gstt.js): the decoded samples are stored in an
  \<open>Int16Array\<close>, whose bytes (little-endian on the platform) follow the header.\<close>

definition Int16Array_bytes :: "16 word list \<Rightarrow> byte list" where
  "Int16Array_bytes ws = concat (map (\<lambda>w. [ucast w, ucast (drop_bit 8 w)]) ws)"

definition AudioBuffer_createWavBuffer :: "byte list \<Rightarrow> error + byte list" where
  "AudioBuffer_createWavBuffer mulawData =
     (let pcmData = map (\<lambda>b. Int16Array_store (AudioBuffer_mulawToPcm (uint b))) mulawData;
          pcmBuffer = Int16Array_bytes pcmData
      in case AudioBuffer_createWavHeader (length pcmBuffer) of
           Inl e \<Rightarrow> Inl e
         | Inr wavHeader \<Rightarrow> Inr (wavHeader @ pcmBuffer))"

text \<open>The conversion loop shared by \<open>Base64ToWavConverter.mulawToPcm\<close> and
  \<open>AudioStitcher.mulawToPcm\<close>: sample \<open>i\<close> is written at offset \<open>2 * i\<close>.\<close>

fun mulawToPcm_loop ::
  "(int \<Rightarrow> int) \<Rightarrow> byte list \<Rightarrow> nat \<Rightarrow> byte list \<Rightarrow> error + byte list" where
  "mulawToPcm_loop dec [] i pcmBuffer = Inr pcmBuffer"
| "mulawToPcm_loop dec (mulawByte # rest) i pcmBuffer =
     (case writeInt16LE (dec (uint mulawByte)) (i * 2) pcmBuffer of
        Inl e \<Rightarrow> Inl e
      | Inr pcmBuffer' \<Rightarrow> mulawToPcm_loop dec rest (i + 1) pcmBuffer')"

record Base64ToWavConverter =
  sampleRate :: nat
  channels :: nat
  bitsPerSample :: nat

definition Base64ToWavConverter_new :: Base64ToWavConverter where
  "Base64ToWavConverter_new = \<lparr>sampleRate = 8000, channels = 1, bitsPerSample = 16\<rparr>"

definition Base64ToWavConverter_mulawToPcm :: "byte list \<Rightarrow> error + byte list" where
  "Base64ToWavConverter_mulawToPcm mulawBuffer =
     mulawToPcm_loop Base64ToWavConverter_mulawDecode mulawBuffer 0
       (Buffer_alloc (length mulawBuffer * 2))"

text \<open>\<open>Base64ToWavConverter.createWavBuffer\<close>. \<open>bitsPerSample / 8\<close> is exact for the 16 bits
  that the constructor sets.\<close>

definition Base64ToWavConverter_createWavBuffer ::
  "Base64ToWavConverter \<Rightarrow> byte list \<Rightarrow> error + byte list" where
  "Base64ToWavConverter_createWavBuffer this pcmData =
     (let bytesPerSample = bitsPerSample this div 8;
          blockAlign = channels this * bytesPerSample;
          byteRate = sampleRate this * blockAlign;
          dataSize = length pcmData;
          fileSize = 36 + dataSize;
          buffer = Buffer_alloc (44 + dataSize)
      in run_writes
           [Buffer_write ''RIFF'' 0,
            writeUInt32LE fileSize 4,
            Buffer_write ''WAVE'' 8,
            Buffer_write ''fmt '' 12,
            writeUInt32LE 16 16,
            writeUInt16LE 1 20,
            writeUInt16LE (channels this) 22,
            writeUInt32LE (sampleRate this) 24,
            writeUInt32LE byteRate 28,
            writeUInt16LE blockAlign 32,
            writeUInt16LE (bitsPerSample this) 34,
            Buffer_write ''data'' 36,
            writeUInt32LE dataSize 40,
            (\<lambda>buffer. Inr (Buffer_copy pcmData 44 buffer))]
           buffer)"

section \<open>The offline stitcher\<close>

record AudioStitcher =
  stitcherChunks :: "string list"

definition AudioStitcher_new :: AudioStitcher where
  "AudioStitcher_new = \<lparr>stitcherChunks = []\<rparr>"

definition addChunk :: "string \<Rightarrow> AudioStitcher \<Rightarrow> AudioStitcher" where
  "addChunk base64Chunk this = this\<lparr>stitcherChunks := stitcherChunks this @ [base64Chunk]\<rparr>"

definition AudioStitcher_mulawToPcm :: "byte list \<Rightarrow> error + byte list" where
  "AudioStitcher_mulawToPcm mulawBuffer =
     mulawToPcm_loop AudioStitcher_mulawDecode mulawBuffer 0
       (Buffer_alloc (length mulawBuffer * 2))"

text \<open>\<open>AudioStitcher.createWavBuffer(pcmData, sampleRate, channels, bitsPerSample)\<close>;
  \<open>bitsPerSample / 8\<close> is exact for the multiples of 8, and the only call passes 16.\<close>

definition AudioStitcher_createWavBuffer ::
  "byte list \<Rightarrow> nat \<Rightarrow> nat \<Rightarrow> nat \<Rightarrow> error + byte list" where
  "AudioStitcher_createWavBuffer pcmData sampleRate' channels' bitsPerSample' =
     (let bytesPerSample = bitsPerSample' div 8;
          blockAlign = channels' * bytesPerSample;
          byteRate = sampleRate' * blockAlign;
          dataSize = length pcmData;
          fileSize = 36 + dataSize;
          buffer = Buffer_alloc (44 + dataSize)
      in run_writes
           [Buffer_write ''RIFF'' 0,
            writeUInt32LE fileSize 4,
            Buffer_write ''WAVE'' 8,
            Buffer_write ''fmt '' 12,
            writeUInt32LE 16 16,
            writeUInt16LE 1 20,
            writeUInt16LE channels' 22,
            writeUInt32LE sampleRate' 24,
            writeUInt32LE byteRate 28,
            writeUInt16LE blockAlign 32,
            writeUInt16LE bitsPerSample' 34,
            Buffer_write ''data'' 36,
            writeUInt32LE dataSize 40,
            (\<lambda>buffer. Inr (Buffer_copy pcmData 44 buffer))]
           buffer)"

text \<open>\<open>AudioStitcher.createWavFile\<close>: the result is the content written to the output
  path, or the error raised.\<close>

definition createWavFile :: "AudioStitcher \<Rightarrow> error + byte list" where
  "createWavFile this =
     (if length (stitcherChunks this) = 0 then Inl (Error ''No audio chunks to process'')
      else
        let allAudioData = concat (stitcherChunks this);
            mulawBuffer = Buffer_from_base64 allAudioData
        in case AudioStitcher_mulawToPcm mulawBuffer of
             Inl e \<Rightarrow> Inl e
           | Inr pcmBuffer \<Rightarrow> AudioStitcher_createWavBuffer pcmBuffer 8000 1 16)"

section \<open>The live reassembly buffer\<close>

text \<open>
  The class \<open>AudioBuffer\<close> of gstt.js. The fields that only feed log lines (account, caller
  and callee numbers, countries, location) are left out. \<open>processingInterval\<close> tells whether
  the repeating timer is armed; times are milliseconds as \<open>Date.now()\<close> returns them.
\<close>

record AudioBuffer =
  audioChunks :: "byte list list"
  processingInterval :: bool
  processingIntervalTime :: nat
  isRecording :: bool
  lastProcessTime :: int
  chunkCount :: nat
  minChunksBeforeProcessing :: nat
  sessionId :: "string option"
  callSid :: "string option"
  streamSid :: "string option"
  sessionStartTime :: "int option"

definition AudioBuffer_new :: AudioBuffer where
  "AudioBuffer_new =
     \<lparr>audioChunks = [], processingInterval = False, processingIntervalTime = 4000,
      isRecording = False, lastProcessTime = 0, chunkCount = 0,
      minChunksBeforeProcessing = 100, sessionId = None, callSid = None, streamSid = None,
      sessionStartTime = None\<rparr>"

record sessionInfo =
  info_callSid :: string
  info_streamSid :: string

definition setSessionInfo :: "int \<Rightarrow> sessionInfo \<Rightarrow> AudioBuffer \<Rightarrow> AudioBuffer" where
  "setSessionInfo now webSocketData this =
     this\<lparr>sessionId := Some (info_callSid webSocketData),
          callSid := Some (info_callSid webSocketData),
          streamSid := Some (info_streamSid webSocketData),
          sessionStartTime := Some now\<rparr>"

definition addAudioChunk :: "string \<Rightarrow> AudioBuffer \<Rightarrow> AudioBuffer" where
  "addAudioChunk base64Audio this =
     (let this = this\<lparr>chunkCount := chunkCount this + 1\<rparr>;
          audioBuffer = Buffer_from_base64 base64Audio;
          this = this\<lparr>audioChunks := audioChunks this @ [audioBuffer]\<rparr>
      in if \<not> isRecording this
         then this\<lparr>isRecording := True, processingInterval := True\<rparr>
         else this)"

text \<open>
  \<open>AudioBuffer.processAccumulatedAudio\<close> at time \<open>now\<close>, up to the point where it awaits
  \<open>transcribeAudioMulaw\<close>. The result is the pair of what the call did and the buffer at
  that point: \<open>Inr None\<close> when one of the two guards returned early,
  \<open>Inr (Some completeAudio)\<close> when the concatenated audio was handed to
  \<open>transcribeAudioMulaw\<close> (the time of the flush is recorded, the pending list is still in
  place), \<open>Inl TypeError\<close> when the session duration is read from a \<open>sessionStartTime\<close> that
  is \<open>null\<close>.
\<close>

definition processAccumulatedAudio ::
  "int \<Rightarrow> AudioBuffer \<Rightarrow> (error + byte list option) \<times> AudioBuffer" where
  "processAccumulatedAudio now this =
     (if now - lastProcessTime this < 3000 then (Inr None, this)
      else if length (audioChunks this) < minChunksBeforeProcessing this then (Inr None, this)
      else case sessionStartTime this of
             None \<Rightarrow> (Inl TypeError, this)
           | Some started \<Rightarrow>
               let completeAudio = concat (audioChunks this)
               in (Inr (Some completeAudio), this\<lparr>lastProcessTime := now\<rparr>))"

text \<open>The rest of \<open>processAccumulatedAudio\<close>, which runs once \<open>transcribeAudioMulaw\<close> has
  returned: the pending list, with whatever arrived in the meantime, is dropped.\<close>

definition processAccumulatedAudio_resume :: "AudioBuffer \<Rightarrow> AudioBuffer" where
  "processAccumulatedAudio_resume this = this\<lparr>audioChunks := [], chunkCount := 0\<rparr>"

definition forceProcessAudio ::
  "int \<Rightarrow> AudioBuffer \<Rightarrow> (error + byte list option) \<times> AudioBuffer" where
  "forceProcessAudio now this =
     (let this = (if processingInterval this then this\<lparr>processingInterval := False\<rparr> else this)
      in if length (audioChunks this) > 0 then processAccumulatedAudio now this
         else (Inr None, this))"

definition reset :: "AudioBuffer \<Rightarrow> AudioBuffer" where
  "reset this =
     (let this = this\<lparr>audioChunks := [], isRecording := False, lastProcessTime := 0,
                      chunkCount := 0\<rparr>;
          this = (if processingInterval this then this\<lparr>processingInterval := False\<rparr> else this)
      in this\<lparr>sessionId := None, callSid := None, streamSid := None,
              sessionStartTime := None\<rparr>)"

section \<open>The WebSocket server\<close>

text \<open>
  A parsed WebSocket message: the event name, the number that \<open>parseInt\<close> reads from the
  field \<open>sequenceNumber\<close> (\<open>None\<close> when it reads \<open>NaN\<close>, as for an absent field),
  \<open>media.payload\<close>, and the identifiers under \<open>start\<close> and at top level (\<open>None\<close> when
  absent).
\<close>

record message =
  event :: string
  sequenceNumber :: "int option"
  payload :: "string option"
  start_callSid :: "string option"
  start_streamSid :: "string option"
  data_callSid :: "string option"
  data_streamSid :: "string option"

definition truthy :: "string option \<Rightarrow> bool" where
  "truthy v = (case v of None \<Rightarrow> False | Some s \<Rightarrow> s \<noteq> [])"

definition or_unknown :: "string option \<Rightarrow> string option \<Rightarrow> string" where
  "or_unknown a b = (if truthy a then the a else if truthy b then the b else ''unknown'')"

text \<open>
  What is left to run when an awaited call of the recogniser returns: the rest of
  \<open>processAccumulatedAudio\<close>, and after it the \<open>reset\<close> that the close handler chains to
  \<open>forceProcessAudio\<close>.
\<close>

datatype continuation =
    Resume
  | ResumeThenReset

definition resume :: "continuation \<Rightarrow> AudioBuffer \<Rightarrow> AudioBuffer" where
  "resume k this =
     (case k of
        Resume \<Rightarrow> processAccumulatedAudio_resume this
      | ResumeThenReset \<Rightarrow> reset (processAccumulatedAudio_resume this))"

text \<open>What runs at once when the call returned at a guard, with nothing to await.\<close>

definition resolved :: "continuation \<Rightarrow> AudioBuffer \<Rightarrow> AudioBuffer" where
  "resolved k this = (case k of Resume \<Rightarrow> this | ResumeThenReset \<Rightarrow> reset this)"

text \<open>
  The server owns one module-level \<open>audioBuffer\<close> (the map \<open>activeCalls\<close> of the HTTP route
  only feeds log lines and is left out). \<open>recognized\<close> lists the requests made to
  the speech recogniser, each with the session identifier of the buffer at that moment
  (\<open>transcribeAudioMulaw\<close> returns without a request on an empty buffer); \<open>unhandled\<close> lists
  the rejections of the promises that nothing awaits; \<open>awaiting\<close> lists, oldest first, the
  continuations of the requests that the recogniser has not answered yet.
\<close>

record server =
  audioBuffer :: AudioBuffer
  recognized :: "(string option \<times> byte list) list"
  unhandled :: "error list"
  awaiting :: "continuation list"

definition server_new :: server where
  "server_new =
     \<lparr>audioBuffer = AudioBuffer_new, recognized = [], unhandled = [], awaiting = []\<rparr>"

definition transcribeAudioMulaw :: "string option \<Rightarrow> byte list \<Rightarrow> server \<Rightarrow> server" where
  "transcribeAudioMulaw sid mulawBuffer srv =
     (if length mulawBuffer = 0 then srv
      else srv\<lparr>recognized := recognized srv @ [(sid, mulawBuffer)]\<rparr>)"

text \<open>
  The effect on the server of a call of \<open>processAccumulatedAudio\<close> or \<open>forceProcessAudio\<close>
  whose continuation is \<open>k\<close>: a rejection stays unhandled; a return at a guard resolves at
  once; a flush makes the request and leaves the continuation waiting for its answer,
  unless the audio is empty, where \<open>transcribeAudioMulaw\<close> returns at once.
\<close>

definition settle ::
  "continuation \<Rightarrow> (error + byte list option) \<times> AudioBuffer \<Rightarrow> server \<Rightarrow> server" where
  "settle k outcome srv =
     (case outcome of
        (Inl e, this) \<Rightarrow> srv\<lparr>audioBuffer := this, unhandled := unhandled srv @ [e]\<rparr>
      | (Inr None, this) \<Rightarrow> srv\<lparr>audioBuffer := resolved k this\<rparr>
      | (Inr (Some completeAudio), this) \<Rightarrow>
          (let srv = transcribeAudioMulaw (sessionId this) completeAudio
                       (srv\<lparr>audioBuffer := this\<rparr>)
           in if length completeAudio = 0 then srv\<lparr>audioBuffer := resume k this\<rparr>
              else srv\<lparr>awaiting := awaiting srv @ [k]\<rparr>))"

text \<open>What happens to the server: a message or the close of a connection (with the
  connection it arrives on), a tick of the timer, or the answer of the recogniser to the
  request at the given position among those still waiting.\<close>

datatype input =
    Message nat message
  | Close nat
  | Tick
  | Transcribed nat

definition on_message :: "int \<Rightarrow> nat \<Rightarrow> message \<Rightarrow> server \<Rightarrow> server" where
  "on_message now connection data srv =
     (if event data = ''connected'' then srv
      else if event data = ''start'' then
        let info = \<lparr>info_callSid = or_unknown (start_callSid data) (data_callSid data),
                    info_streamSid = or_unknown (start_streamSid data) (data_streamSid data)\<rparr>
        in srv\<lparr>audioBuffer := setSessionInfo now info (reset (audioBuffer srv))\<rparr>
      else if event data = ''media'' \<and> truthy (payload data) then
        srv\<lparr>audioBuffer := addAudioChunk (the (payload data)) (audioBuffer srv)\<rparr>
      else if event data = ''stop'' then
        settle Resume (forceProcessAudio now (audioBuffer srv)) srv
      else srv)"

definition on_close :: "int \<Rightarrow> nat \<Rightarrow> server \<Rightarrow> server" where
  "on_close now connection srv =
     settle ResumeThenReset (forceProcessAudio now (audioBuffer srv)) srv"

definition on_tick :: "int \<Rightarrow> server \<Rightarrow> server" where
  "on_tick now srv =
     (if processingInterval (audioBuffer srv)
      then settle Resume (processAccumulatedAudio now (audioBuffer srv)) srv
      else srv)"

definition on_transcribed :: "nat \<Rightarrow> server \<Rightarrow> server" where
  "on_transcribed i srv =
     (if i < length (awaiting srv)
      then srv\<lparr>audioBuffer := resume (awaiting srv ! i) (audioBuffer srv),
               awaiting := take i (awaiting srv) @ drop (Suc i) (awaiting srv)\<rparr>
      else srv)"

fun step :: "server \<Rightarrow> int \<times> input \<Rightarrow> server" where
  "step srv (now, Message connection data) = on_message now connection data srv"
| "step srv (now, Close connection) = on_close now connection srv"
| "step srv (now, Tick) = on_tick now srv"
| "step srv (now, Transcribed i) = on_transcribed i srv"

definition run :: "(int \<times> input) list \<Rightarrow> server \<Rightarrow> server" where
  "run inputs srv = foldl step srv inputs"

section \<open>The offline extractor\<close>






text \<open>A media message as the transport delivers it.\<close>

definition media :: "int \<Rightarrow> string \<Rightarrow> message" where
  "media seq p =
     \<lparr>event = ''media'', sequenceNumber = Some seq, payload = Some p, start_callSid = None,
      start_streamSid = None, data_callSid = None, data_streamSid = None\<rparr>"

definition start :: "string \<Rightarrow> string \<Rightarrow> message" where
  "start call stream =
     \<lparr>event = ''start'', sequenceNumber = Some 1, payload = None, start_callSid = Some call,
      start_streamSid = Some stream, data_callSid = None, data_streamSid = Some stream\<rparr>"

definition stop :: message where
  "stop =
     \<lparr>event = ''stop'', sequenceNumber = Some 0, payload = None, start_callSid = None,
      start_streamSid = None, data_callSid = None, data_streamSid = None\<rparr>"

text \<open>The server after the start message of call \<open>CA1\<close> at time 1700000000000 and \<open>n\<close>
  media frames that each carry the one byte \<open>0xFF\<close>.\<close>

definition pending_session :: "nat \<Rightarrow> server" where
  "pending_session n =
     \<lparr>audioBuffer =
        \<lparr>audioChunks = replicate n [0xFF], processingInterval = True,
         processingIntervalTime = 4000, isRecording = True, lastProcessTime = 0,
         chunkCount = n, minChunksBeforeProcessing = 100, sessionId = Some ''CA1'',
         callSid = Some ''CA1'', streamSid = Some ''MZ1'',
         sessionStartTime = Some 1700000000000\<rparr>,
      recognized = [], unhandled = [], awaiting = []\<rparr>"

section \<open>Properties of the decoders\<close>

lemma byte_cases:
  assumes "list_all P [0..255]" and "0 \<le> b" and "b \<le> 255"
  shows "P b"
proof -
  from assms(2,3) have "b \<in> set [0..255]" by simp
  with assms(1) show ?thesis by (simp add: list_all_iff)
qed

lemma mulawDecodeAlt_entry:
  assumes "0 \<le> b" and "b \<le> 255"
  shows "mulawDecodeAlt b = Some (mulawTableEntry b)"
proof -
  from assms have idx: "nat b < length [0..255::int]" by simp
  from assms have "[0..255] ! nat b = b" by (simp add: nth_upto)
  with idx have "map mulawTableEntry [0..255] ! nat b = mulawTableEntry b"
    by (simp only: nth_map)
  with assms show ?thesis
    by (simp add: mulawDecodeAlt_def generateMulawTable_def Let_def)
qed

lemma live_decoder_table:
  "list_all (\<lambda>b. - 16004 \<le> AudioBuffer_mulawToPcm b \<and> AudioBuffer_mulawToPcm b \<le> 16004)
     [0..255]"
  by code_simp

lemma clipped_decoders_table:
  "list_all (\<lambda>b. - 32768 \<le> Base64ToWavConverter_mulawDecode b
                \<and> Base64ToWavConverter_mulawDecode b \<le> 32767
                \<and> - 32768 \<le> ImprovedAudioConverter_mulawDecode b
                \<and> ImprovedAudioConverter_mulawDecode b \<le> 32767)
     [0..255]"
  by code_simp

lemma decoders_agree_table:
  "list_all (\<lambda>b. (mulawTableEntry b = ImprovedAudioConverter_mulawDecode b)
                  = (b = 127 \<or> b = 255))
     [0..255]"
  by code_simp

lemma live_decoder_at_0: "AudioBuffer_mulawToPcm 0 = - 16004"
  by code_simp

lemma live_decoder_at_255: "AudioBuffer_mulawToPcm 255 = 132"
  by code_simp

lemma table_entry_at_0: "mulawTableEntry 0 = - 15492"
  by code_simp

lemma table_entry_at_255: "mulawTableEntry 255 = 132"
  by code_simp

lemma branching_decoder_at_0: "ImprovedAudioConverter_mulawDecode 0 = - 31876"
  by code_simp

lemma branching_decoder_at_255: "ImprovedAudioConverter_mulawDecode 255 = 132"
  by code_simp

lemma converter_decoder_at_0: "Base64ToWavConverter_mulawDecode 0 = - 15492"
  by code_simp

text \<open>
  C4, as stated, fails: on the byte \<open>0x00\<close> the branching decoder returns \<open>-31876\<close> and the
  lookup-table decoder \<open>-15492\<close>.
\<close>

theorem decoders_differ_at_zero:
  "mulawDecodeAlt 0 \<noteq> Some (ImprovedAudioConverter_mulawDecode 0)"
  by (simp add: mulawDecodeAlt_entry table_entry_at_0 branching_decoder_at_0)

text \<open>
  C4, amended: for every byte \<open>b\<close> in \<open>0..255\<close>, the branching decoder
  \<open>ImprovedAudioConverter.mulawDecode\<close> and the lookup-table decoder \<open>mulawDecodeAlt\<close> return
  the same sample exactly when \<open>b\<close> is \<open>0x7F\<close> or \<open>0xFF\<close>; on every other byte they differ.
\<close>

theorem decoders_agree_iff:
  assumes "0 \<le> b" and "b \<le> 255"
  shows "(mulawDecodeAlt b = Some (ImprovedAudioConverter_mulawDecode b)) = (b = 127 \<or> b = 255)"
  using byte_cases [OF decoders_agree_table assms] by (simp add: mulawDecodeAlt_entry assms)

text \<open>The amended C4 at the silence byte \<open>0xFF\<close>, where the two decoders agree.\<close>

theorem decoders_agree_iff_witness:
  "(0::int) \<le> 255 \<and> (255::int) \<le> 255
   \<and> mulawDecodeAlt 255 = Some (ImprovedAudioConverter_mulawDecode 255)"
  using decoders_agree_iff [of 255] by simp

lemma silence_is_bias:
  "AudioBuffer_mulawToPcm 0xFF = 132 \<and> mulawDecodeAlt 0xFF = Some 132 \<and> BIAS = 132"
  by (simp add: live_decoder_at_255 table_entry_at_255 mulawDecodeAlt_entry BIAS_def)

text \<open>
  C5: \<open>decode(0xFF)\<close>, the \<mu>-law silence byte, returns a value within 8 of 0. The decoder
  of the live server does not: it adds \<open>BIAS\<close> to the magnitude and never takes it off
  again, so the silence byte decodes to \<open>132\<close>.
\<close>

theorem silence_not_within_8:
  "\<not> (- 8 \<le> AudioBuffer_mulawToPcm 0xFF \<and> AudioBuffer_mulawToPcm 0xFF \<le> 8)"
  by (simp add: live_decoder_at_255)

text \<open>
  C6: for every byte \<open>b\<close> in \<open>0..255\<close>, the decoders \<open>Base64ToWavConverter.mulawDecode\<close> and
  \<open>ImprovedAudioConverter.mulawDecode\<close> return a value in \<open>[-32768, 32767]\<close>. They are total
  functions of the byte with no failing branch, so the whole domain is accepted and the
  result is determined by the byte.
\<close>

theorem clipped_decoders_in_int16:
  assumes "0 \<le> b" and "b \<le> 255"
  shows "- 32768 \<le> Base64ToWavConverter_mulawDecode b
         \<and> Base64ToWavConverter_mulawDecode b \<le> 32767
         \<and> - 32768 \<le> ImprovedAudioConverter_mulawDecode b
         \<and> ImprovedAudioConverter_mulawDecode b \<le> 32767"
  using byte_cases [OF clipped_decoders_table assms] .

text \<open>C6 at the byte \<open>0x00\<close>, the loudest negative sample of both decoders.\<close>

theorem clipped_decoders_in_int16_witness:
  "(0::int) \<le> 0 \<and> (0::int) \<le> 255
   \<and> Base64ToWavConverter_mulawDecode 0 = - 15492
   \<and> ImprovedAudioConverter_mulawDecode 0 = - 31876
   \<and> - 32768 \<le> Base64ToWavConverter_mulawDecode 0
   \<and> Base64ToWavConverter_mulawDecode 0 \<le> 32767
   \<and> - 32768 \<le> ImprovedAudioConverter_mulawDecode 0
   \<and> ImprovedAudioConverter_mulawDecode 0 \<le> 32767"
  using clipped_decoders_in_int16 [of 0]
  by (simp add: converter_decoder_at_0 branching_decoder_at_0)

text \<open>
  C10: for every byte \<open>b\<close> in \<open>0..255\<close>, the unclipped decoder of the live server,
  \<open>AudioBuffer.mulawToPcm\<close>, returns a value in \<open>[-16004, 16004]\<close>; the value fits a signed
  16-bit sample, so the \<open>Int16Array\<close> element that \<open>createWavBuffer\<close> stores reads back as
  the same value.
\<close>

theorem live_decoder_range:
  assumes "0 \<le> b" and "b \<le> 255"
  shows "- 16004 \<le> AudioBuffer_mulawToPcm b \<and> AudioBuffer_mulawToPcm b \<le> 16004
         \<and> sint (Int16Array_store (AudioBuffer_mulawToPcm b)) = AudioBuffer_mulawToPcm b"
proof -
  have range: "- 16004 \<le> AudioBuffer_mulawToPcm b \<and> AudioBuffer_mulawToPcm b \<le> 16004"
    using byte_cases [OF live_decoder_table assms] .
  then have "sint (word_of_int (AudioBuffer_mulawToPcm b) :: 16 word) = AudioBuffer_mulawToPcm b"
    by (simp add: sint_sbintrunc' signed_take_bit_int_eq_self)
  with range show ?thesis by (simp add: Int16Array_store_def)
qed

text \<open>C10 at the byte \<open>0x00\<close>, where the lower bound is attained.\<close>

theorem live_decoder_range_witness:
  "(0::int) \<le> 0 \<and> (0::int) \<le> 255 \<and> AudioBuffer_mulawToPcm 0 = - 16004
   \<and> sint (Int16Array_store (AudioBuffer_mulawToPcm 0)) = - 16004"
  using live_decoder_range [of 0] by (simp add: live_decoder_at_0)

section \<open>Properties of the WAV writers\<close>

lemma le32_roundtrip:
  fixes x :: nat
  assumes "x \<le> 4294967295"
  shows "x mod 256 + 256 * (x div 256 mod 256) + 65536 * (x div 65536 mod 256)
         + 16777216 * (x div 16777216 mod 256) = x"
proof -
  define y where "y = x div 256"
  define z where "z = y div 256"
  define w where "w = z div 256"
  have a: "x div 65536 = z" by (simp add: y_def z_def div_mult2_eq)
  have b: "x div 16777216 = w" by (simp add: y_def z_def w_def div_mult2_eq)
  from assms have c: "w mod 256 = w" by (simp add: y_def z_def w_def div_mult2_eq)
  have x: "x = x mod 256 + 256 * y" by (simp add: y_def)
  have y: "y = y mod 256 + 256 * z" by (simp add: z_def)
  have z: "z = z mod 256 + 256 * w" by (simp add: w_def)
  have "x mod 256 + 256 * (y mod 256) + 65536 * (z mod 256) + 16777216 * w = x"
    using x y z by linarith
  then show ?thesis by (simp add: a b c y_def [symmetric])
qed

lemma le32_bytes:
  assumes "v \<le> 4294967295"
  shows "unat (of_nat v :: byte) + 256 * unat (of_nat (v div 256) :: byte)
         + 65536 * unat (of_nat (v div 65536) :: byte)
         + 16777216 * unat (of_nat (v div 16777216) :: byte) = v"
proof -
  have "unat (of_nat k :: byte) = k mod 256" for k
    by (simp add: unat_of_nat)
  then show ?thesis using le32_roundtrip [OF assms] by (simp only:)
qed

lemma alloc44:
  "Buffer_alloc 44 = [0,0,0,0,0,0,0,0,0,0,0,0,0,0,0,0,0,0,0,0,0,0,
                      0,0,0,0,0,0,0,0,0,0,0,0,0,0,0,0,0,0,0,0,0,0]"
  by (simp add: Buffer_alloc_def eval_nat_numeral)

lemma alloc44_plus:
  "Buffer_alloc (44 + n) = [0,0,0,0,0,0,0,0,0,0,0,0,0,0,0,0,0,0,0,0,0,0,
                            0,0,0,0,0,0,0,0,0,0,0,0,0,0,0,0,0,0,0,0,0,0] @ replicate n 0"
proof -
  have "Buffer_alloc (44 + n) = Buffer_alloc 44 @ replicate n 0"
    by (simp add: Buffer_alloc_def replicate_add)
  then show ?thesis by (simp only: alloc44)
qed

lemma header_explicit:
  assumes "m = 36 + n" and "m \<le> 4294967295"
  shows "AudioBuffer_createWavHeader n = Inr
       [0x52, 0x49, 0x46, 0x46,
        of_nat m, of_nat (m div 256), of_nat (m div 65536), of_nat (m div 16777216),
        0x57, 0x41, 0x56, 0x45,
        0x66, 0x6D, 0x74, 0x20,
        16, 0, 0, 0,
        1, 0,
        1, 0,
        0x40, 0x1F, 0, 0,
        0x80, 0x3E, 0, 0,
        2, 0,
        16, 0,
        0x64, 0x61, 0x74, 0x61,
        of_nat n, of_nat (n div 256), of_nat (n div 65536), of_nat (n div 16777216)]"
proof -
  from assms have "36 + n \<le> 4294967295" by simp
  then have "AudioBuffer_createWavHeader n = Inr
       [0x52, 0x49, 0x46, 0x46,
        of_nat (36 + n), of_nat ((36 + n) div 256), of_nat ((36 + n) div 65536), of_nat ((36 + n) div 16777216),
        0x57, 0x41, 0x56, 0x45,
        0x66, 0x6D, 0x74, 0x20,
        16, 0, 0, 0,
        1, 0,
        1, 0,
        0x40, 0x1F, 0, 0,
        0x80, 0x3E, 0, 0,
        2, 0,
        16, 0,
        0x64, 0x61, 0x74, 0x61,
        of_nat n, of_nat (n div 256), of_nat (n div 65536), of_nat (n div 16777216)]"
    by (simp add: AudioBuffer_createWavHeader_def alloc44 Buffer_write_def writeUInt32LE_def
        writeUInt16LE_def write_at_def)
  then show ?thesis unfolding assms(1) .
qed

lemma converter_buffer_explicit:
  assumes "m = 36 + length pcm" and "m \<le> 4294967295"
  shows "Base64ToWavConverter_createWavBuffer Base64ToWavConverter_new pcm = Inr
       ([0x52, 0x49, 0x46, 0x46,
        of_nat m, of_nat (m div 256), of_nat (m div 65536), of_nat (m div 16777216),
        0x57, 0x41, 0x56, 0x45,
        0x66, 0x6D, 0x74, 0x20,
        16, 0, 0, 0,
        1, 0,
        1, 0,
        0x40, 0x1F, 0, 0,
        0x80, 0x3E, 0, 0,
        2, 0,
        16, 0,
        0x64, 0x61, 0x74, 0x61,
        of_nat (length pcm), of_nat ((length pcm) div 256), of_nat ((length pcm) div 65536), of_nat ((length pcm) div 16777216)]
        @ pcm)"
proof -
  from assms have "36 + length pcm \<le> 4294967295" by simp
  then have "Base64ToWavConverter_createWavBuffer Base64ToWavConverter_new pcm = Inr
       ([0x52, 0x49, 0x46, 0x46,
        of_nat (36 + length pcm), of_nat ((36 + length pcm) div 256), of_nat ((36 + length pcm) div 65536), of_nat ((36 + length pcm) div 16777216),
        0x57, 0x41, 0x56, 0x45,
        0x66, 0x6D, 0x74, 0x20,
        16, 0, 0, 0,
        1, 0,
        1, 0,
        0x40, 0x1F, 0, 0,
        0x80, 0x3E, 0, 0,
        2, 0,
        16, 0,
        0x64, 0x61, 0x74, 0x61,
        of_nat (length pcm), of_nat ((length pcm) div 256), of_nat ((length pcm) div 65536), of_nat ((length pcm) div 16777216)]
        @ pcm)"
    by (simp add: Base64ToWavConverter_createWavBuffer_def Base64ToWavConverter_new_def
        alloc44_plus Buffer_write_def writeUInt32LE_def writeUInt16LE_def write_at_def
        Buffer_copy_def Let_def)
  then show ?thesis unfolding assms(1) .
qed

lemma stitcher_buffer_explicit:
  assumes "m = 36 + length pcm" and "m \<le> 4294967295"
  shows "AudioStitcher_createWavBuffer pcm 8000 1 16 = Inr
       ([0x52, 0x49, 0x46, 0x46,
        of_nat m, of_nat (m div 256), of_nat (m div 65536), of_nat (m div 16777216),
        0x57, 0x41, 0x56, 0x45,
        0x66, 0x6D, 0x74, 0x20,
        16, 0, 0, 0,
        1, 0,
        1, 0,
        0x40, 0x1F, 0, 0,
        0x80, 0x3E, 0, 0,
        2, 0,
        16, 0,
        0x64, 0x61, 0x74, 0x61,
        of_nat (length pcm), of_nat ((length pcm) div 256), of_nat ((length pcm) div 65536), of_nat ((length pcm) div 16777216)]
        @ pcm)"
proof -
  from assms have "36 + length pcm \<le> 4294967295" by simp
  then have "AudioStitcher_createWavBuffer pcm 8000 1 16 = Inr
       ([0x52, 0x49, 0x46, 0x46,
        of_nat (36 + length pcm), of_nat ((36 + length pcm) div 256), of_nat ((36 + length pcm) div 65536), of_nat ((36 + length pcm) div 16777216),
        0x57, 0x41, 0x56, 0x45,
        0x66, 0x6D, 0x74, 0x20,
        16, 0, 0, 0,
        1, 0,
        1, 0,
        0x40, 0x1F, 0, 0,
        0x80, 0x3E, 0, 0,
        2, 0,
        16, 0,
        0x64, 0x61, 0x74, 0x61,
        of_nat (length pcm), of_nat ((length pcm) div 256), of_nat ((length pcm) div 65536), of_nat ((length pcm) div 16777216)]
        @ pcm)"
    by (simp add: AudioStitcher_createWavBuffer_def
        alloc44_plus Buffer_write_def writeUInt32LE_def writeUInt16LE_def write_at_def
        Buffer_copy_def Let_def)
  then show ?thesis unfolding assms(1) .
qed

text \<open>
  C7, as stated, fails: for a payload of 4294967260 bytes the RIFF size \<open>36 + dataSize\<close> no
  longer fits the 32-bit field, \<open>writeUInt32LE\<close> raises a range error and no header is
  produced.
\<close>

theorem wav_header_size_overflow:
  "AudioBuffer_createWavHeader 4294967260 = Inl RangeError"
  by (simp add: AudioBuffer_createWavHeader_def alloc44 Buffer_write_def writeUInt32LE_def
      write_at_def)

text \<open>
  C7, amended: for every PCM payload of \<open>dataSize\<close> bytes with \<open>36 + dataSize \<le> 4294967295\<close>,
  the WAV writers produce a 44-byte header (tags \<open>RIFF\<close>, \<open>WAVE\<close>, \<open>fmt\<close> and \<open>data\<close>) whose
  RIFF chunk size field equals \<open>36 + dataSize\<close> and whose data chunk size field equals
  \<open>dataSize\<close>, with format chunk size 16, audio format 1, 1 channel, sample rate 8000, byte
  rate \<open>sampleRate * channels * bitsPerSample / 8\<close>, block align
  \<open>channels * bitsPerSample / 8\<close> and 16 bits per sample; \<open>Base64ToWavConverter.createWavBuffer\<close>
  returns that header followed by the payload.
\<close>

theorem wav_header_fields:
  assumes "36 + length pcm \<le> 4294967295"
  shows "\<exists>h. AudioBuffer_createWavHeader (length pcm) = Inr h
           \<and> Base64ToWavConverter_createWavBuffer Base64ToWavConverter_new pcm = Inr (h @ pcm)
           \<and> length h = 44
           \<and> take 4 h = map of_char ''RIFF''
           \<and> readUInt32LE h 4 = Inr (36 + length pcm)
           \<and> take 4 (drop 8 h) = map of_char ''WAVE''
           \<and> take 4 (drop 12 h) = map of_char ''fmt ''
           \<and> readUInt32LE h 16 = Inr 16
           \<and> readUInt16LE h 20 = Inr 1
           \<and> readUInt16LE h 22 = Inr 1
           \<and> readUInt32LE h 24 = Inr 8000
           \<and> readUInt32LE h 28 = Inr (8000 * 1 * 16 div 8)
           \<and> readUInt16LE h 32 = Inr (1 * 16 div 8)
           \<and> readUInt16LE h 34 = Inr 16
           \<and> take 4 (drop 36 h) = map of_char ''data''
           \<and> readUInt32LE h 40 = Inr (length pcm)"
proof -
  define m where "m = 36 + length pcm"
  with assms have m: "m \<le> 4294967295" and n: "length pcm \<le> 4294967295" by simp_all
  show ?thesis
    unfolding header_explicit [OF m_def m] converter_buffer_explicit [OF m_def m]
      m_def [symmetric]
    by (simp add: readUInt32LE_def readUInt16LE_def le32_bytes [OF m] le32_bytes [OF n])
qed

text \<open>The amended C7 on the empty payload: both writers give the same 44 bytes, with
  chunk size 36 and data size 0.\<close>

theorem wav_header_fields_witness:
  "36 + length ([] :: byte list) \<le> 4294967295
   \<and> Base64ToWavConverter_createWavBuffer Base64ToWavConverter_new []
       = AudioBuffer_createWavHeader 0
   \<and> AudioBuffer_createWavHeader 0 = Inr
       [0x52, 0x49, 0x46, 0x46, 36, 0, 0, 0, 0x57, 0x41, 0x56, 0x45, 0x66, 0x6D, 0x74, 0x20,
        16, 0, 0, 0, 1, 0, 1, 0, 0x40, 0x1F, 0, 0, 0x80, 0x3E, 0, 0, 2, 0, 16, 0,
        0x64, 0x61, 0x74, 0x61, 0, 0, 0, 0]"
proof -
  have "AudioBuffer_createWavHeader 0 = Inr
       [0x52, 0x49, 0x46, 0x46, 36, 0, 0, 0, 0x57, 0x41, 0x56, 0x45, 0x66, 0x6D, 0x74, 0x20,
        16, 0, 0, 0, 1, 0, 1, 0, 0x40, 0x1F, 0, 0, 0x80, 0x3E, 0, 0, 2, 0, 16, 0,
        0x64, 0x61, 0x74, 0x61, 0, 0, 0, 0]"
    by (simp add: header_explicit [of 36 0])
  then show ?thesis
    using wav_header_fields [of "[]"] by auto
qed

lemma stitcher_empty_pcm: "AudioStitcher_mulawToPcm [] = Inr []"
  by (simp add: AudioStitcher_mulawToPcm_def Buffer_alloc_def)

lemma empty_wav_same:
  "AudioStitcher_createWavBuffer [] 8000 1 16
   = Base64ToWavConverter_createWavBuffer Base64ToWavConverter_new []"
  by (simp del: One_nat_def
      add: stitcher_buffer_explicit [of 36 "[]"] converter_buffer_explicit [of 36 "[]"])

text \<open>
  C9, as stated, fails: with zero pending chunks \<open>AudioStitcher.createWavFile\<close> raises
  \<open>No audio chunks to process\<close> instead of returning an empty segment.
\<close>

theorem createWavFile_no_chunks_raises:
  "createWavFile AudioStitcher_new = Inl (Error ''No audio chunks to process'')"
  by (simp add: createWavFile_def AudioStitcher_new_def)

text \<open>
  C9, amended: segment materialization by \<open>AudioStitcher.createWavFile\<close> with zero pending
  chunks raises the error \<open>No audio chunks to process\<close>; with at least one chunk and a
  zero-length decoded payload it succeeds, and producing a WAV artifact from a zero-length
  payload succeeds as a valid header-only file of 44 bytes with chunk size 36 and data
  size 0 rather than failing.
\<close>

theorem empty_materialization:
  "(stitcherChunks this = []
      \<longrightarrow> createWavFile this = Inl (Error ''No audio chunks to process''))
   \<and> (stitcherChunks this \<noteq> [] \<and> Buffer_from_base64 (concat (stitcherChunks this)) = []
      \<longrightarrow> createWavFile this
          = Base64ToWavConverter_createWavBuffer Base64ToWavConverter_new [])
   \<and> (\<exists>w. Base64ToWavConverter_createWavBuffer Base64ToWavConverter_new [] = Inr w
          \<and> length w = 44 \<and> readUInt32LE w 4 = Inr 36 \<and> readUInt32LE w 40 = Inr 0)"
proof (intro conjI impI)
  assume "stitcherChunks this = []"
  then show "createWavFile this = Inl (Error ''No audio chunks to process'')"
    by (simp add: createWavFile_def)
next
  assume "stitcherChunks this \<noteq> [] \<and> Buffer_from_base64 (concat (stitcherChunks this)) = []"
  then show "createWavFile this
      = Base64ToWavConverter_createWavBuffer Base64ToWavConverter_new []"
    by (simp del: One_nat_def
        add: createWavFile_def Let_def stitcher_empty_pcm empty_wav_same)
next
  show "\<exists>w. Base64ToWavConverter_createWavBuffer Base64ToWavConverter_new [] = Inr w
          \<and> length w = 44 \<and> readUInt32LE w 4 = Inr 36 \<and> readUInt32LE w 40 = Inr 0"
    by (simp add: converter_buffer_explicit [of 36 "[]"] readUInt32LE_def)
qed

text \<open>The amended C9 on the stitcher without chunks and on the stitcher holding one empty
  chunk.\<close>

theorem empty_materialization_witness:
  "stitcherChunks AudioStitcher_new = []
   \<and> createWavFile AudioStitcher_new = Inl (Error ''No audio chunks to process'')
   \<and> stitcherChunks (addChunk [] AudioStitcher_new) \<noteq> []
   \<and> Buffer_from_base64 (concat (stitcherChunks (addChunk [] AudioStitcher_new))) = []
   \<and> createWavFile (addChunk [] AudioStitcher_new)
       = Base64ToWavConverter_createWavBuffer Base64ToWavConverter_new []"
proof -
  have a: "stitcherChunks AudioStitcher_new = []"
    by (simp add: AudioStitcher_new_def)
  have b: "stitcherChunks (addChunk [] AudioStitcher_new) \<noteq> []"
    by (simp add: addChunk_def)
  have c: "Buffer_from_base64 (concat (stitcherChunks (addChunk [] AudioStitcher_new))) = []"
    by (simp add: addChunk_def AudioStitcher_new_def Buffer_from_base64_def map_filter_simps)
  show ?thesis
    using empty_materialization [of AudioStitcher_new]
      empty_materialization [of "addChunk [] AudioStitcher_new"] a b c
    by blast
qed

section \<open>Properties of the live reassembly buffer\<close>

lemma addAudioChunk_explicit:
  "addAudioChunk p this =
     this\<lparr>chunkCount := chunkCount this + 1,
          audioChunks := audioChunks this @ [Buffer_from_base64 p],
          isRecording := True,
          processingInterval := (processingInterval this \<or> \<not> isRecording this)\<rparr>"
  by (cases "isRecording this") (simp_all add: addAudioChunk_def Let_def)

lemma foldl_addAudioChunk_explicit:
  "ps \<noteq> [] \<Longrightarrow>
   foldl (\<lambda>b p. addAudioChunk p b) this ps =
     this\<lparr>chunkCount := chunkCount this + length ps,
          audioChunks := audioChunks this @ map Buffer_from_base64 ps,
          isRecording := True,
          processingInterval := (processingInterval this \<or> \<not> isRecording this)\<rparr>"
proof (induction ps arbitrary: this)
  case Nil
  then show ?case by simp
next
  case (Cons p ps)
  show ?case
  proof (cases "ps = []")
    case True
    then show ?thesis by (simp add: addAudioChunk_explicit)
  next
    case False
    from Cons.IH [OF False, of "addAudioChunk p this"] show ?thesis
      by (simp add: addAudioChunk_explicit)
  qed
qed



lemma on_message_media:
  "p \<noteq> [] \<Longrightarrow> on_message now c (media k p) srv
     = srv\<lparr>audioBuffer := addAudioChunk p (audioBuffer srv)\<rparr>"
  by (simp add: on_message_def media_def truthy_def)

lemma run_media:
  assumes "\<forall>x \<in> set xs. snd (snd (snd x)) \<noteq> []"
  shows "run (map (\<lambda>(t, c, k, p). (t, Message c (media k p))) xs) srv
         = srv\<lparr>audioBuffer := foldl (\<lambda>b p. addAudioChunk p b) (audioBuffer srv)
                                 (map (\<lambda>(t, c, k, p). p) xs)\<rparr>"
  using assms
proof (induction xs arbitrary: srv)
  case Nil
  then show ?case by (simp add: run_def)
next
  case (Cons x xs)
  obtain t c k p where x: "x = (t, c, k, p)" by (cases x) auto
  with Cons.prems have p: "p \<noteq> []" by simp
  from Cons.prems have "\<forall>x \<in> set xs. snd (snd (snd x)) \<noteq> []" by simp
  from Cons.IH [OF this, of "on_message t c (media k p) srv"] show ?case
    by (simp add: run_def x on_message_media [OF p])
qed

lemma run_append: "run (xs @ ys) srv = run ys (run xs srv)"
  by (simp add: run_def)

lemma run_Cons: "run (x # xs) srv = run xs (step srv x)"
  by (simp add: run_def)

lemma run_Nil: "run [] srv = srv"
  by (simp add: run_def)

lemma b64_FF: "Buffer_from_base64 ''/w=='' = [0xFF]"
  by code_simp

lemma b64_00: "Buffer_from_base64 ''AA=='' = [0x00]"
  by code_simp





lemma concat_replicate_pairs:
  "concat (concat (replicate n [ [a], [b] ])) = concat (replicate n [a, b])"
  by (induction n) simp_all


lemma run_replicate_media:
  assumes "0 < n"
  shows "run (replicate n (t, Message c (media k ''/w==''))) srv
         = srv\<lparr>audioBuffer := (audioBuffer srv)
                 \<lparr>chunkCount := chunkCount (audioBuffer srv) + n,
                  audioChunks := audioChunks (audioBuffer srv) @ replicate n [0xFF],
                  isRecording := True,
                  processingInterval := (processingInterval (audioBuffer srv)
                                          \<or> \<not> isRecording (audioBuffer srv))\<rparr>\<rparr>"
proof -
  let ?xs = "replicate n (t, c, k, ''/w=='')"
  let ?f = "\<lambda>(t, c, k, p). (t :: int, Message c (media k p))"
  have ev: "replicate n (t, Message c (media k ''/w=='')) = map ?f ?xs"
    by simp
  have ne: "\<forall>x \<in> set ?xs. snd (snd (snd x)) \<noteq> []"
    by simp
  define ps where "ps = map (\<lambda>(t :: int, c :: nat, k :: int, p :: string). p) ?xs"
  from assms have nonempty: "ps \<noteq> []"
    by (simp add: ps_def)
  have payloads: "map Buffer_from_base64 ps = replicate n [0xFF]"
    by (simp add: ps_def b64_FF)
  have len: "length ps = n"
    by (simp add: ps_def)
  show ?thesis
    unfolding ev run_media [OF ne] ps_def [symmetric]
      foldl_addAudioChunk_explicit [OF nonempty] payloads len ..
qed

lemma started:
  "run [(1700000000000, Message 1 (start ''CA1'' ''MZ1''))] server_new
   = \<lparr>audioBuffer = \<lparr>audioChunks = [], processingInterval = False,
        processingIntervalTime = 4000, isRecording = False, lastProcessTime = 0,
        chunkCount = 0, minChunksBeforeProcessing = 100, sessionId = Some ''CA1'',
        callSid = Some ''CA1'', streamSid = Some ''MZ1'',
        sessionStartTime = Some 1700000000000\<rparr>,
      recognized = [], unhandled = [], awaiting = []\<rparr>"
  by (simp add: run_def on_message_def start_def server_new_def AudioBuffer_new_def reset_def
      setSessionInfo_def or_unknown_def truthy_def Let_def)

lemma run_pending_session:
  assumes "0 < n"
  shows "run ([(1700000000000, Message 1 (start ''CA1'' ''MZ1''))]
              @ replicate n (1700000000500, Message 1 (media 2 ''/w=='')) @ evs) server_new
         = run evs (pending_session n)"
proof -
  have "run ([(1700000000000, Message 1 (start ''CA1'' ''MZ1''))]
             @ replicate n (1700000000500, Message 1 (media 2 ''/w=='')) @ evs) server_new
        = run evs (run (replicate n (1700000000500, Message 1 (media 2 ''/w=='')))
            (run [(1700000000000, Message 1 (start ''CA1'' ''MZ1''))] server_new))"
    by (simp only: run_append)
  also have "run (replicate n (1700000000500, Message 1 (media 2 ''/w=='')))
            (run [(1700000000000, Message 1 (start ''CA1'' ''MZ1''))] server_new)
      = pending_session n"
    unfolding started run_replicate_media [OF assms] pending_session_def
    by simp
  finally show ?thesis .
qed

lemma two_started:
  "run [(1700000000000, Message 2 (start ''CA-B'' ''MZ-B'')),
        (1700000000001, Message 1 (start ''CA-A'' ''MZ-A''))] server_new
   = \<lparr>audioBuffer = \<lparr>audioChunks = [], processingInterval = False,
        processingIntervalTime = 4000, isRecording = False, lastProcessTime = 0,
        chunkCount = 0, minChunksBeforeProcessing = 100, sessionId = Some ''CA-A'',
        callSid = Some ''CA-A'', streamSid = Some ''MZ-A'',
        sessionStartTime = Some 1700000000001\<rparr>,
      recognized = [], unhandled = [], awaiting = []\<rparr>"
  by (simp add: run_def on_message_def start_def server_new_def AudioBuffer_new_def reset_def
      setSessionInfo_def or_unknown_def truthy_def Let_def)

lemma interleaved100:
  "run ([(1700000000000, Message 2 (start ''CA-B'' ''MZ-B'')),
         (1700000000001, Message 1 (start ''CA-A'' ''MZ-A''))]
        @ concat (replicate 50 [(1700000000500, Message 1 (media 2 ''AA=='')),
                                (1700000000500, Message 2 (media 2 ''/w==''))])
        @ evs) server_new
   = run evs
      \<lparr>audioBuffer = \<lparr>audioChunks = concat (replicate 50 [ [0x00], [0xFF] ]),
         processingInterval = True, processingIntervalTime = 4000, isRecording = True,
         lastProcessTime = 0, chunkCount = 100, minChunksBeforeProcessing = 100,
         sessionId = Some ''CA-A'', callSid = Some ''CA-A'', streamSid = Some ''MZ-A'',
         sessionStartTime = Some 1700000000001\<rparr>,
       recognized = [], unhandled = [], awaiting = []\<rparr>"
proof -
  let ?xs = "concat (replicate 50 [(1700000000500 :: int, 1 :: nat, 2 :: int, ''AA==''),
                                   (1700000000500, 2, 2, ''/w=='')])"
  let ?f = "\<lambda>(t, c, k, p). (t :: int, Message c (media k p))"
  have ev: "concat (replicate 50 [(1700000000500, Message 1 (media 2 ''AA=='')),
                                  (1700000000500, Message 2 (media 2 ''/w==''))]) = map ?f ?xs"
    by (simp del: One_nat_def add: map_concat)
  have ne: "\<forall>x \<in> set ?xs. snd (snd (snd x)) \<noteq> []"
    by auto
  define ps where "ps = map (\<lambda>(t :: int, c :: nat, k :: int, p :: string). p) ?xs"
  have nonempty: "ps \<noteq> []"
    by (simp add: ps_def)
  have payloads: "map Buffer_from_base64 ps = concat (replicate 50 [ [0x00], [0xFF] ])"
    by (simp add: ps_def map_concat b64_00 b64_FF)
  have len: "length ps = 100"
    by (simp add: ps_def length_concat sum_list_replicate)
  have "run ([(1700000000000, Message 2 (start ''CA-B'' ''MZ-B'')),
              (1700000000001, Message 1 (start ''CA-A'' ''MZ-A''))]
             @ concat (replicate 50 [(1700000000500, Message 1 (media 2 ''AA=='')),
                                     (1700000000500, Message 2 (media 2 ''/w==''))])
             @ evs) server_new
        = run evs (run (map ?f ?xs)
            (run [(1700000000000, Message 2 (start ''CA-B'' ''MZ-B'')),
                  (1700000000001, Message 1 (start ''CA-A'' ''MZ-A''))] server_new))"
    by (simp only: run_append ev)
  also have "run (map ?f ?xs)
            (run [(1700000000000, Message 2 (start ''CA-B'' ''MZ-B'')),
                  (1700000000001, Message 1 (start ''CA-A'' ''MZ-A''))] server_new)
      = \<lparr>audioBuffer = \<lparr>audioChunks = concat (replicate 50 [ [0x00], [0xFF] ]),
         processingInterval = True, processingIntervalTime = 4000, isRecording = True,
         lastProcessTime = 0, chunkCount = 100, minChunksBeforeProcessing = 100,
         sessionId = Some ''CA-A'', callSid = Some ''CA-A'', streamSid = Some ''MZ-A'',
         sessionStartTime = Some 1700000000001\<rparr>,
       recognized = [], unhandled = [], awaiting = []\<rparr>"
    unfolding two_started run_media [OF ne] ps_def [symmetric]
      foldl_addAudioChunk_explicit [OF nonempty] payloads len
    by simp
  finally show ?thesis .
qed

text \<open>
  C1: two sessions never share a reassembly buffer. The server of gstt.js has a single
  module-level buffer. Session B starts on connection 2, session A starts on connection 1,
  each sends 50 one-byte frames in turn (A the byte \<open>0x00\<close>, B the byte \<open>0xFF\<close>), and the
  timer ticks: the one segment handed to the recogniser is labelled with session A and
  holds the bytes of both sessions.
\<close>

theorem shared_buffer_mixes_sessions:
  "recognized
     (run ([(1700000000000, Message 2 (start ''CA-B'' ''MZ-B'')),
            (1700000000001, Message 1 (start ''CA-A'' ''MZ-A''))]
           @ concat (replicate 50 [(1700000000500, Message 1 (media 2 ''AA=='')),
                                   (1700000000500, Message 2 (media 2 ''/w==''))])
           @ [(1700000004500, Tick)]) server_new)
   = [(Some ''CA-A'', concat (replicate 50 [0x00, 0xFF]))]"
  unfolding interleaved100
  by (simp add: run_Cons run_Nil on_tick_def processAccumulatedAudio_def settle_def
      transcribeAudioMulaw_def Let_def length_concat sum_list_replicate
      concat_replicate_pairs)

text \<open>
  C2: a session stop flushes the pending frames whatever their number. With 40 pending
  frames the stop message cancels the timer and hands nothing to the recogniser; the 40
  chunks stay in the buffer, and the close of the connection discards them.
\<close>

theorem stop_below_threshold_flushes_nothing:
  "run ([(1700000000000, Message 1 (start ''CA1'' ''MZ1''))]
        @ replicate 40 (1700000000500, Message 1 (media 2 ''/w==''))
        @ [(1700000001000, Message 1 stop)]) server_new
   = \<lparr>audioBuffer = \<lparr>audioChunks = replicate 40 [0xFF], processingInterval = False,
        processingIntervalTime = 4000, isRecording = True, lastProcessTime = 0,
        chunkCount = 40, minChunksBeforeProcessing = 100, sessionId = Some ''CA1'',
        callSid = Some ''CA1'', streamSid = Some ''MZ1'',
        sessionStartTime = Some 1700000000000\<rparr>,
      recognized = [], unhandled = [], awaiting = []\<rparr>
   \<and> run ([(1700000000000, Message 1 (start ''CA1'' ''MZ1''))]
        @ replicate 40 (1700000000500, Message 1 (media 2 ''/w==''))
        @ [(1700000001000, Message 1 stop), (1700000001100, Close 1)]) server_new
   = \<lparr>audioBuffer = \<lparr>audioChunks = [], processingInterval = False,
        processingIntervalTime = 4000, isRecording = False, lastProcessTime = 0,
        chunkCount = 0, minChunksBeforeProcessing = 100, sessionId = None,
        callSid = None, streamSid = None, sessionStartTime = None\<rparr>,
      recognized = [], unhandled = [], awaiting = []\<rparr>"
proof -
  have "0 < (40 :: nat)" by simp
  note pending = run_pending_session [OF this]
  show ?thesis
    unfolding pending pending_session_def
    by (simp add: run_Cons run_Nil on_message_def on_close_def stop_def forceProcessAudio_def
        processAccumulatedAudio_def settle_def resolved_def reset_def Let_def)
qed

lemma foreign_close_resets:
  "run [(1700000001000, Close 2)] (pending_session 50)
   = \<lparr>audioBuffer = \<lparr>audioChunks = [], processingInterval = False,
        processingIntervalTime = 4000, isRecording = False, lastProcessTime = 0,
        chunkCount = 0, minChunksBeforeProcessing = 100, sessionId = None,
        callSid = None, streamSid = None, sessionStartTime = None\<rparr>,
      recognized = [], unhandled = [], awaiting = []\<rparr>"
  by (simp add: pending_session_def run_Cons run_Nil on_close_def forceProcessAudio_def
      processAccumulatedAudio_def settle_def resolved_def reset_def Let_def)

text \<open>
  C8: while a session is accumulating, a timer tick triggers a flush if and only if at
  least 100 chunks are pending and at least 3000 ms have elapsed since the previous flush.
  Session \<open>CA1\<close> starts on connection 1 and sends 50 frames; connection 2 closes, which
  resets the shared buffer and with it the start time of the session; the session sends 100
  more frames and the timer ticks, with 100 chunks pending and no earlier flush. The tick
  does not flush: the line that logs the session duration reads the start time, which is
  \<open>null\<close>, and throws; nothing reaches the recogniser and the 100 chunks stay pending.
\<close>

theorem full_tick_after_foreign_close_throws:
  "run ([(1700000000000, Message 1 (start ''CA1'' ''MZ1''))]
        @ replicate 50 (1700000000500, Message 1 (media 2 ''/w==''))
        @ [(1700000001000, Close 2)]
        @ replicate 100 (1700000001500, Message 1 (media 2 ''/w==''))
        @ [(1700000005500, Tick)]) server_new
   = \<lparr>audioBuffer = \<lparr>audioChunks = replicate 100 [0xFF], processingInterval = True,
        processingIntervalTime = 4000, isRecording = True, lastProcessTime = 0,
        chunkCount = 100, minChunksBeforeProcessing = 100, sessionId = None,
        callSid = None, streamSid = None, sessionStartTime = None\<rparr>,
      recognized = [], unhandled = [TypeError], awaiting = []\<rparr>"
proof -
  have "0 < (50 :: nat)" by simp
  note pending = run_pending_session [OF this]
  have "0 < (100 :: nat)" by simp
  note more = run_replicate_media [OF this]
  have "run ([(1700000000000, Message 1 (start ''CA1'' ''MZ1''))]
        @ replicate 50 (1700000000500, Message 1 (media 2 ''/w==''))
        @ [(1700000001000, Close 2)]
        @ replicate 100 (1700000001500, Message 1 (media 2 ''/w==''))
        @ [(1700000005500, Tick)]) server_new
      = run [(1700000005500, Tick)]
          (run (replicate 100 (1700000001500, Message 1 (media 2 ''/w=='')))
             (run [(1700000001000, Close 2)] (pending_session 50)))"
    unfolding pending by (simp only: run_append)
  also have "\<dots> = \<lparr>audioBuffer = \<lparr>audioChunks = replicate 100 [0xFF],
        processingInterval = True, processingIntervalTime = 4000, isRecording = True,
        lastProcessTime = 0, chunkCount = 100, minChunksBeforeProcessing = 100,
        sessionId = None, callSid = None, streamSid = None, sessionStartTime = None\<rparr>,
      recognized = [], unhandled = [TypeError], awaiting = []\<rparr>"
    unfolding foreign_close_resets more
    by (simp add: run_Cons run_Nil on_tick_def processAccumulatedAudio_def settle_def)
  finally show ?thesis .
qed










end
